theory Spec2Isabelle
  imports Complex_Main "HOL-Library.Sublist"
begin

section \<open>Python string primitives\<close>

text \<open>
  Strings are lists of characters; a character stands for the code point of the same
  number (0..255).  The predicates below are the restrictions of Python's
  \<^verbatim>\<open>str.isspace\<close>, \<^verbatim>\<open>str.isalnum\<close> and \<^verbatim>\<open>str.lower\<close> to these code points.
\<close>

definition py_isspace :: "char \<Rightarrow> bool" where
  "py_isspace c = ((of_char c :: int) \<in> {9, 10, 11, 12, 13, 28, 29, 30, 31, 32, 133, 160})"

definition py_isalnum :: "char \<Rightarrow> bool" where
  "py_isalnum c =
     (let n = (of_char c :: int) in
        (48 \<le> n \<and> n \<le> 57) \<or> (65 \<le> n \<and> n \<le> 90) \<or> (97 \<le> n \<and> n \<le> 122) \<or>
        n \<in> {170, 178, 179, 181, 185, 186, 188, 189, 190} \<or>
        (192 \<le> n \<and> n \<le> 214) \<or> (216 \<le> n \<and> n \<le> 246) \<or> (248 \<le> n \<and> n \<le> 255))"

definition py_lower_char :: "char \<Rightarrow> char" where
  "py_lower_char c =
     (let n = (of_char c :: int) in
        if (65 \<le> n \<and> n \<le> 90) \<or> (192 \<le> n \<and> n \<le> 222 \<and> n \<noteq> 215)
        then char_of (n + 32) else c)"

definition py_lower :: "string \<Rightarrow> string" where
  "py_lower s = map py_lower_char s"

definition py_strip :: "string \<Rightarrow> string" where
  "py_strip s = rev (dropWhile py_isspace (rev (dropWhile py_isspace s)))"

text \<open>\<^verbatim>\<open>s.split()\<close>: the maximal runs of non-whitespace characters, in order.
  The first argument is the current run, reversed.\<close>

fun split_ws :: "string \<Rightarrow> string \<Rightarrow> string list" where
  "split_ws cur [] = (if cur = [] then [] else [rev cur])"
| "split_ws cur (c # cs) =
     (if py_isspace c
      then (if cur = [] then split_ws [] cs else rev cur # split_ws [] cs)
      else split_ws (c # cur) cs)"

definition py_split :: "string \<Rightarrow> string list" where
  "py_split s = split_ws [] s"

fun py_join :: "string \<Rightarrow> string list \<Rightarrow> string" where
  "py_join sep [] = []"
| "py_join sep [x] = x"
| "py_join sep (x # y # ys) = x @ sep @ py_join sep (y # ys)"

text \<open>\<^verbatim>\<open>sub in s\<close> for strings.\<close>

fun py_contains :: "string \<Rightarrow> string \<Rightarrow> bool" where
  "py_contains sub [] = (sub = [])"
| "py_contains sub (c # cs) = (prefix sub (c # cs) \<or> py_contains sub cs)"

text \<open>\<^verbatim>\<open>s.split(sep)[-1]\<close> for a non-empty separator: the text after the last separator
  found by the left-to-right, non-overlapping scan.  \<open>skip\<close> counts the characters of a
  separator still to be consumed; \<open>cur\<close> is the current piece, reversed.\<close>

fun split_last_from :: "string \<Rightarrow> nat \<Rightarrow> string \<Rightarrow> string \<Rightarrow> string" where
  "split_last_from sep skip cur [] = rev cur"
| "split_last_from sep (Suc k) cur (c # cs) = split_last_from sep k cur cs"
| "split_last_from sep 0 cur (c # cs) =
     (if prefix sep (c # cs) then split_last_from sep (length sep - 1) [] cs
      else split_last_from sep 0 (c # cur) cs)"

definition py_split_last :: "string \<Rightarrow> string \<Rightarrow> string" where
  "py_split_last sep s = split_last_from sep 0 [] s"

section \<open>Remote title similarity (\<^verbatim>\<open>ArxivDownloader._calculate_similarity\<close>)\<close>

definition stop_words :: "string set" where
  "stop_words = {''the'', ''a'', ''an'', ''and'', ''or'', ''but'', ''in'', ''on'', ''at'',
                 ''to'', ''for'', ''of'', ''with'', ''by''}"

text \<open>The quotient of two lengths is a Python float; it is modelled by the exact rational
  (the comparison with the threshold agrees with the float comparison for every title
  with fewer than \<open>2^50\<close> words).\<close>

definition calculate_similarity :: "string \<Rightarrow> string \<Rightarrow> rat" where
  "calculate_similarity title1 title2 =
     (let words1 = set (py_split (py_lower title1)) - stop_words;
          words2 = set (py_split (py_lower title2)) - stop_words
      in if words1 = {} \<or> words2 = {} then 0
         else let intersection = words1 \<inter> words2; union = words1 \<union> words2
              in if union \<noteq> {} then of_nat (card intersection) / of_nat (card union) else 0)"

section \<open>The world: files on disk and the effects performed\<close>

type_synonym path = string

datatype event =
    EvSearch string                          \<comment> \<open>GET on the arXiv query API, with the cleaned title\<close>
  | EvSleep                                  \<comment> \<open>\<^verbatim>\<open>time.sleep(self.delay)\<close>\<close>
  | EvGet string                             \<comment> \<open>GET of a PDF URL\<close>
  | EvExtractText path                       \<comment> \<open>reading the leading pages of a PDF\<close>
  | EvGenerate                               \<comment> \<open>text generation call to the model backend\<close>
  | EvUpdateOverview string string           \<comment> \<open>\<^verbatim>\<open>database.update_overview\<close>\<close>
  | EvUpdatePdfInfo string path "string option"  \<comment> \<open>\<^verbatim>\<open>database.update_pdf_info\<close>\<close>

text \<open>The exceptions that the modelled code lets escape.\<close>

datatype exn =
    FileNotFoundError | IsADirectoryError | OSError
  | AttributeError | ValidationError | ValueError

datatype node = File nat | Directory    \<comment> \<open>a file with its size in bytes, or a directory\<close>

record world =
  files :: "path \<Rightarrow> node option"   \<comment> \<open>what exists at every path\<close>
  unstatable :: "path \<Rightarrow> bool"     \<comment> \<open>\<^verbatim>\<open>stat\<close> on the path fails with an error other than
                                       "not found", as for a component that is too long\<close>
  trace :: "event list"             \<comment> \<open>effects performed so far, oldest first\<close>

text \<open>\<^verbatim>\<open>Path.exists()\<close> answers \<^verbatim>\<open>False\<close> for a missing path and re-raises every other
  error of \<^verbatim>\<open>stat\<close>.\<close>

definition py_exists :: "path \<Rightarrow> world \<Rightarrow> exn + bool" where
  "py_exists p w = (if unstatable w p then Inl OSError else Inr (files w p \<noteq> None))"

text \<open>\<^verbatim>\<open>output_path.exists()\<close> has returned \<^verbatim>\<open>True\<close>.\<close>

definition exists_file :: "path \<Rightarrow> world \<Rightarrow> bool" where
  "exists_file p w = (py_exists p w = Inr True)"

definition write_file :: "path \<Rightarrow> nat \<Rightarrow> world \<Rightarrow> world" where
  "write_file p n w = w\<lparr>files := (files w)(p \<mapsto> File n)\<rparr>"

definition remove_file :: "path \<Rightarrow> world \<Rightarrow> world" where
  "remove_file p w = w\<lparr>files := (files w)(p := None)\<rparr>"

text \<open>\<^verbatim>\<open>Path.unlink()\<close> removes a file and raises for anything else.\<close>

definition py_unlink :: "path \<Rightarrow> world \<Rightarrow> exn + world" where
  "py_unlink p w =
     (if unstatable w p then Inl OSError
      else case files w p of
             None \<Rightarrow> Inl FileNotFoundError
           | Some Directory \<Rightarrow> Inl IsADirectoryError
           | Some (File n) \<Rightarrow> Inr (remove_file p w))"

text \<open>\<^verbatim>\<open>open(output_path, 'wb')\<close> raises when the path cannot be resolved or is a
  directory.\<close>

definition cannot_open :: "path \<Rightarrow> world \<Rightarrow> bool" where
  "cannot_open p w = (unstatable w p \<or> files w p = Some Directory)"

definition emit :: "event \<Rightarrow> world \<Rightarrow> world" where
  "emit e w = w\<lparr>trace := trace w @ [e]\<rparr>"

text \<open>What the outside world answers during one acquisition.\<close>

record entry =
  id_text :: "string option"          \<comment> \<open>text of \<^verbatim>\<open>atom:id\<close>, if the element and its text exist\<close>
  title_text :: "string option"       \<comment> \<open>text of \<^verbatim>\<open>atom:title\<close>\<close>
  author_names :: "string option list" \<comment> \<open>text of \<^verbatim>\<open>atom:name\<close> of every \<^verbatim>\<open>atom:author\<close>\<close>

datatype search_reply =
    SearchError                \<comment> \<open>the request or the XML parsing raised\<close>
  | SearchEntries "entry list"

datatype download_reply =
    MkdirFails bool            \<comment> \<open>creating the parent directories raised; \<open>True\<close> when it left
                                  the destination path impossible to \<^verbatim>\<open>stat\<close>\<close>
  | RequestFails               \<comment> \<open>the GET or \<^verbatim>\<open>raise_for_status\<close> raised\<close>
  | OpenFails                  \<comment> \<open>opening the destination for writing raised\<close>
  | StreamFails nat            \<comment> \<open>the stream raised after this many bytes were written\<close>
  | Streamed nat               \<comment> \<open>the whole body, of this many bytes, was written\<close>

datatype gen_reply = GenError | GenOK string

record replies =
  search_reply :: search_reply
  download_reply :: download_reply
  pdf_text :: string           \<comment> \<open>result of \<^verbatim>\<open>_extract_text_from_pdf\<close> on the downloaded file\<close>
  gen_reply :: gen_reply

section \<open>\<^verbatim>\<open>ArxivDownloader\<close>\<close>

record hit =
  arxiv_id :: string
  hit_title :: string
  hit_pdf_url :: string
  hit_authors :: "string list"
  similarity :: rat

datatype msg =
    PaperNotFound                 \<comment> \<open>"Paper not found on arXiv"\<close>
  | LowSimilarity rat string      \<comment> \<open>"Low similarity (0.xx): 'title'"\<close>
  | DownloadedFromArxiv string    \<comment> \<open>"Downloaded from arXiv: id"\<close>
  | FailedToDownload              \<comment> \<open>"Failed to download PDF"\<close>
  | DownloadedFromUrl string      \<comment> \<open>"Downloaded from URL: url"\<close>
  | FailedToDownloadFromUrl       \<comment> \<open>"Failed to download PDF from URL"\<close>
  | ErrorMessage exn              \<comment> \<open>"Error: e"\<close>
  | AlreadyExists                 \<comment> \<open>"PDF already exists locally"\<close>
  | OverviewFailed msg            \<comment> \<open>"message | Failed to extract overview from PDF"\<close>
  | OverviewUpdated msg           \<comment> \<open>"message | Overview updated from PDF"\<close>

definition clean_title :: "string \<Rightarrow> string" where
  "clean_title title =
     py_join '' '' (py_split
       (map (\<lambda>c. if py_isalnum c \<or> c = CHR ''_'' \<or> py_isspace c \<or> c = CHR ''-'' then c
                  else CHR '' '') title))"

definition search_paper :: "search_reply \<Rightarrow> string \<Rightarrow> world \<Rightarrow> hit option \<times> world" where
  "search_paper reply title w =
     (let w1 = emit (EvSearch (clean_title title)) w in
      case reply of
        SearchError \<Rightarrow> (None, w1)
      | SearchEntries entries \<Rightarrow>
          (case entries of
             [] \<Rightarrow> (None, w1)
           | e # _ \<Rightarrow>
               (case id_text e of
                  None \<Rightarrow> (None, w1)
                | Some idt \<Rightarrow>
                    (case title_text e of
                       None \<Rightarrow> (None, w1)
                     | Some tt \<Rightarrow>
                         (let aid = py_split_last ''/abs/'' idt;
                              arxiv_title = py_strip tt
                          in (Some \<lparr>arxiv_id = aid,
                                    hit_title = arxiv_title,
                                    hit_pdf_url = ''https://arxiv.org/pdf/'' @ aid @ ''.pdf'',
                                    hit_authors = List.map_filter id (author_names e),
                                    similarity = calculate_similarity (py_lower title)
                                                   (py_lower arxiv_title)\<rparr>, w1))))))"

text \<open>The \<^verbatim>\<open>except\<close> branch of \<^verbatim>\<open>download_pdf\<close>:
  \<^verbatim>\<open>if output_path.exists(): output_path.unlink()\<close> and \<^verbatim>\<open>return False\<close>.  Both calls are
  outside any \<^verbatim>\<open>try\<close>; what they raise leaves \<^verbatim>\<open>download_pdf\<close>.\<close>

definition download_failed :: "path \<Rightarrow> world \<Rightarrow> (exn + bool) \<times> world" where
  "download_failed output_path w =
     (case py_exists output_path w of
        Inl e \<Rightarrow> (Inl e, w)
      | Inr False \<Rightarrow> (Inr False, w)
      | Inr True \<Rightarrow>
          (case py_unlink output_path w of
             Inl e \<Rightarrow> (Inl e, w)
           | Inr w1 \<Rightarrow> (Inr False, w1)))"

text \<open>\<^verbatim>\<open>download_pdf\<close>.  A destination that cannot be examined makes the creation of
  its parent directories raise; a directory at the destination makes \<^verbatim>\<open>open\<close> raise.
  A file that has just been written can be examined and removed.\<close>

definition download_pdf ::
  "download_reply \<Rightarrow> string \<Rightarrow> path \<Rightarrow> world \<Rightarrow> (exn + bool) \<times> world" where
  "download_pdf reply url output_path w =
     (if unstatable w output_path then download_failed output_path w
      else
        case reply of
          MkdirFails broken \<Rightarrow>
            download_failed output_path
              (if broken then w\<lparr>unstatable := (unstatable w)(output_path := True)\<rparr> else w)
        | RequestFails \<Rightarrow> download_failed output_path (emit (EvGet url) w)
        | OpenFails \<Rightarrow> download_failed output_path (emit (EvGet url) w)
        | StreamFails n \<Rightarrow>
            (let w1 = emit (EvGet url) w in
             if cannot_open output_path w1 then download_failed output_path w1
             else download_failed output_path (write_file output_path n w1))
        | Streamed n \<Rightarrow>
            (let w1 = emit (EvGet url) w in
             if cannot_open output_path w1 then download_failed output_path w1
             else let w2 = write_file output_path n w1 in
               if n < 1000 then (Inr False, remove_file output_path w2) else (Inr True, w2)))"

definition search_and_download ::
  "replies \<Rightarrow> string \<Rightarrow> path \<Rightarrow> rat \<Rightarrow> world \<Rightarrow> (exn + bool \<times> msg \<times> hit option) \<times> world" where
  "search_and_download orc title output_path min_similarity w =
     (case search_paper (search_reply orc) title w of
        (None, w1) \<Rightarrow> (Inr (False, PaperNotFound, None), w1)
      | (Some result, w1) \<Rightarrow>
          if similarity result < min_similarity
          then (Inr (False, LowSimilarity (similarity result) (hit_title result), None), w1)
          else (case download_pdf (download_reply orc) (hit_pdf_url result) output_path
                       (emit EvSleep w1) of
                  (Inl e, w2) \<Rightarrow> (Inl e, w2)
                | (Inr True, w2) \<Rightarrow>
                    (Inr (True, DownloadedFromArxiv (arxiv_id result), Some result), w2)
                | (Inr False, w2) \<Rightarrow> (Inr (False, FailedToDownload, None), w2)))"

text \<open>\<^verbatim>\<open>download_from_url\<close> runs under \<^verbatim>\<open>try ... except Exception as e\<close> and turns an
  exception into the failure "Error: e".\<close>

definition download_from_url :: "replies \<Rightarrow> string \<Rightarrow> path \<Rightarrow> world \<Rightarrow> (bool \<times> msg) \<times> world" where
  "download_from_url orc url0 output_path w =
     (let url = (if py_contains ''arxiv.org/abs/'' url0
                 then ''https://arxiv.org/pdf/'' @ py_strip (py_split_last ''/abs/'' url0) @ ''.pdf''
                 else url0)
      in case download_pdf (download_reply orc) url output_path w of
           (Inl e, w1) \<Rightarrow> ((False, ErrorMessage e), w1)
         | (Inr True, w1) \<Rightarrow> ((True, DownloadedFromUrl url), w1)
         | (Inr False, w1) \<Rightarrow> ((False, FailedToDownloadFromUrl), w1))"

section \<open>\<^verbatim>\<open>PDFExtractor.extract_detailed_overview\<close>\<close>

text \<open>The test \<^verbatim>\<open>pdf_path.exists()\<close> comes before the \<^verbatim>\<open>try\<close>.\<close>

definition extract_detailed_overview ::
  "replies \<Rightarrow> path \<Rightarrow> world \<Rightarrow> (exn + string option) \<times> world" where
  "extract_detailed_overview orc pdf_path w =
     (case py_exists pdf_path w of
        Inl e \<Rightarrow> (Inl e, w)
      | Inr False \<Rightarrow> (Inr None, w)
      | Inr True \<Rightarrow>
          (let w1 = emit (EvExtractText pdf_path) w; text = pdf_text orc in
           if text = [] \<or> length (py_strip text) < 100 then (Inr None, w1)
           else let w2 = emit EvGenerate w1 in
             case gen_reply orc of
               GenError \<Rightarrow> (Inr None, w2)
             | GenOK response \<Rightarrow> (Inr (Some (py_strip response)), w2)))"

section \<open>\<^verbatim>\<open>PaperMetadata\<close> and \<^verbatim>\<open>DownloadService\<close>\<close>

text \<open>The text fields of a paper hold characters of type \<open>'c\<close>: \<open>char\<close> for papers matched
  with files and downloaded, code points for papers built from a decoded model response.\<close>

record 'c paper_metadata =
  paper_id :: string
  title :: "'c list"
  authors :: "'c list list"            \<comment> \<open>\<^verbatim>\<open>Author\<close> has the single field \<^verbatim>\<open>name\<close>\<close>
  overview :: "'c list option"
  conference_name :: "string option"
  pdf_found :: bool
  pdf_path :: "string option"
  pdf_url :: "string option"
  source_files :: "string list"
  created_at :: nat
  updated_at :: nat
  version :: int

definition generate_pdf_filename :: "char paper_metadata \<Rightarrow> string" where
  "generate_pdf_filename paper =
     (let title_part = take 50 (title paper);
          title_part = map (\<lambda>c. if py_isalnum c \<or> c \<in> set '' -_'' then c else CHR ''_'') title_part;
          title_part = py_join ''_'' (py_split title_part)
      in title_part @ ''_'' @ take 8 (paper_id paper) @ ''.pdf'')"

text \<open>\<^verbatim>\<open>self.conferences_root / conference_name / "pdfs" / pdf_filename\<close>; the path
  operator \<^verbatim>\<open>/\<close> of \<^verbatim>\<open>pathlib\<close> is the parameter \<open>pjoin\<close>.\<close>

definition output_path_of :: "(path \<Rightarrow> string \<Rightarrow> path) \<Rightarrow> path \<Rightarrow> string \<Rightarrow> char paper_metadata \<Rightarrow> path" where
  "output_path_of pjoin conferences_root conference paper =
     pjoin (pjoin (pjoin conferences_root conference) ''pdfs'') (generate_pdf_filename paper)"

text \<open>The common tail of both download operations: extract the overview of the file just
  downloaded; without an overview, \<^verbatim>\<open>output_path.unlink()\<close>; with one, the two store
  updates (which catch their own exceptions).\<close>

definition finish_download ::
  "replies \<Rightarrow> char paper_metadata \<Rightarrow> path \<Rightarrow> msg \<Rightarrow> string option \<Rightarrow> world \<Rightarrow> (exn + bool \<times> msg) \<times> world" where
  "finish_download orc paper output_path message url w =
     (case extract_detailed_overview orc output_path w of
        (Inl e, w1) \<Rightarrow> (Inl e, w1)
      | (Inr detailed_overview, w1) \<Rightarrow>
          (case (if detailed_overview = Some [] then None else detailed_overview) of
             None \<Rightarrow>
               (case py_unlink output_path w1 of
                  Inl e \<Rightarrow> (Inl e, w1)
                | Inr w2 \<Rightarrow> (Inr (False, OverviewFailed message), w2))
           | Some text \<Rightarrow>
               (Inr (True, OverviewUpdated message),
                emit (EvUpdatePdfInfo (paper_id paper) output_path url)
                  (emit (EvUpdateOverview (paper_id paper) text) w1))))"

definition download_paper ::
  "(path \<Rightarrow> string \<Rightarrow> path) \<Rightarrow> path \<Rightarrow> replies \<Rightarrow> char paper_metadata \<Rightarrow> string \<Rightarrow> world
     \<Rightarrow> (exn + bool \<times> msg) \<times> world" where
  "download_paper pjoin conferences_root orc paper conference w =
     (let output_path = output_path_of pjoin conferences_root conference paper in
      case py_exists output_path w of
        Inl e \<Rightarrow> (Inl e, w)
      | Inr True \<Rightarrow> (Inr (False, AlreadyExists), w)
      | Inr False \<Rightarrow>
          (case search_and_download orc (title paper) output_path (3 / 5) w of
             (Inl e, w1) \<Rightarrow> (Inl e, w1)
           | (Inr (False, message, arxiv_data), w1) \<Rightarrow> (Inr (False, message), w1)
           | (Inr (True, message, arxiv_data), w1) \<Rightarrow>
               finish_download orc paper output_path message
                 (map_option hit_pdf_url arxiv_data) w1))"

definition download_paper_from_url ::
  "(path \<Rightarrow> string \<Rightarrow> path) \<Rightarrow> path \<Rightarrow> replies \<Rightarrow> char paper_metadata \<Rightarrow> string \<Rightarrow> string \<Rightarrow> world
     \<Rightarrow> (exn + bool \<times> msg) \<times> world" where
  "download_paper_from_url pjoin conferences_root orc paper conference url w =
     (let output_path = output_path_of pjoin conferences_root conference paper in
      case py_exists output_path w of
        Inl e \<Rightarrow> (Inl e, w)
      | Inr True \<Rightarrow> (Inr (False, AlreadyExists), w)
      | Inr False \<Rightarrow>
          (case download_from_url orc url output_path w of
             ((False, message), w1) \<Rightarrow> (Inr (False, message), w1)
           | ((True, message), w1) \<Rightarrow>
               finish_download orc paper output_path message (Some url) w1))"

section \<open>JSON values and \<^verbatim>\<open>json.loads\<close>\<close>

text \<open>
  The text given to \<^verbatim>\<open>json.loads\<close> is a \<open>string\<close>; the strings it returns can hold any
  code point (a \<^verbatim>\<open>\uXXXX\<close> escape names one), so they are lists of code points.
  A Python \<^verbatim>\<open>dict\<close> is an association list with distinct keys, in insertion order.
  A float keeps the text of its literal.
\<close>

type_synonym ustring = "int list"

definition ustr :: "string \<Rightarrow> ustring" where
  "ustr s = map of_char s"

datatype json =
    JNull
  | JBool bool
  | JInt int
  | JFloat string
  | JStr ustring
  | JList "json list"
  | JDict "(ustring \<times> json) list"

text \<open>\<^verbatim>\<open>d[k] = v\<close> and \<^verbatim>\<open>d.get(k)\<close>.\<close>

fun dict_set :: "ustring \<Rightarrow> json \<Rightarrow> (ustring \<times> json) list \<Rightarrow> (ustring \<times> json) list" where
  "dict_set k v [] = [(k, v)]"
| "dict_set k v ((k', v') # d) = (if k = k' then (k, v) # d else (k', v') # dict_set k v d)"

definition dict_get :: "(ustring \<times> json) list \<Rightarrow> ustring \<Rightarrow> json option" where
  "dict_get d k = map_of d k"

text \<open>The outcome of a decoding function that runs on fuel: a result, the exception
  \<^verbatim>\<open>JSONDecodeError\<close>, or the fuel ran out.\<close>

datatype 'a res = Ok 'a | DecodeError | OutOfFuel

definition json_ws :: "char \<Rightarrow> bool" where
  "json_ws c = (c = CHR '' '' \<or> c = CHR 0x09 \<or> c = CHR 0x0A \<or> c = CHR 0x0D)"

definition skip_ws :: "string \<Rightarrow> string" where
  "skip_ws s = dropWhile json_ws s"

definition py_ord :: "char \<Rightarrow> int" where
  "py_ord c = of_char c"

definition is_digit :: "char \<Rightarrow> bool" where
  "is_digit c = (48 \<le> py_ord c \<and> py_ord c \<le> 57)"

definition digit_val :: "char \<Rightarrow> int" where
  "digit_val c = py_ord c - 48"

definition hex_val :: "char \<Rightarrow> int option" where
  "hex_val c =
     (if 48 \<le> py_ord c \<and> py_ord c \<le> 57 then Some (py_ord c - 48)
      else if 97 \<le> py_ord c \<and> py_ord c \<le> 102 then Some (py_ord c - 87)
      else if 65 \<le> py_ord c \<and> py_ord c \<le> 70 then Some (py_ord c - 55)
      else None)"

text \<open>Four hexadecimal digits, as after \<^verbatim>\<open>\u\<close>.\<close>

definition hex4 :: "string \<Rightarrow> (int \<times> string) option" where
  "hex4 s =
     (case s of
        a # b # c # d # r \<Rightarrow>
          (case (hex_val a, hex_val b, hex_val c, hex_val d) of
             (Some x, Some y, Some z, Some u) \<Rightarrow> Some (((x * 16 + y) * 16 + z) * 16 + u, r)
           | _ \<Rightarrow> None)
      | _ \<Rightarrow> None)"

definition simple_escape :: "char \<Rightarrow> int option" where
  "simple_escape e =
     (if e = CHR 0x22 then Some 0x22
      else if e = CHR 0x5C then Some 0x5C
      else if e = CHR ''/'' then Some 0x2F
      else if e = CHR ''b'' then Some 8
      else if e = CHR ''f'' then Some 12
      else if e = CHR ''n'' then Some 10
      else if e = CHR ''r'' then Some 13
      else if e = CHR ''t'' then Some 9
      else None)"

text \<open>\<^verbatim>\<open>scanstring\<close> in strict mode, from the character after the opening quote; the
  first argument is the decoded text so far, reversed.  \<open>skip\<close> counts characters of an
  escape sequence already decoded.\<close>

fun scanstring :: "nat \<Rightarrow> ustring \<Rightarrow> string \<Rightarrow> (ustring \<times> string) option" where
  "scanstring skip acc [] = None"
| "scanstring (Suc k) acc (c # cs) = scanstring k acc cs"
| "scanstring 0 acc (c # cs) =
     (if c = CHR 0x22 then Some (rev acc, cs)
      else if c = CHR 0x5C then
        (case cs of
           [] \<Rightarrow> None
         | e # r \<Rightarrow>
             if e = CHR ''u'' then
               (case hex4 r of
                  None \<Rightarrow> None
                | Some (n, r1) \<Rightarrow>
                    if 0xD800 \<le> n \<and> n \<le> 0xDBFF \<and> prefix [CHR 0x5C, CHR ''u''] r1 then
                      (case hex4 (drop 2 r1) of
                         None \<Rightarrow> None
                       | Some (n2, r2) \<Rightarrow>
                           if 0xDC00 \<le> n2 \<and> n2 \<le> 0xDFFF
                           then scanstring 11 ((0x10000 + (n - 0xD800) * 0x400 + (n2 - 0xDC00)) # acc) cs
                           else scanstring 5 (n # acc) cs)
                    else scanstring 5 (n # acc) cs)
             else
               (case simple_escape e of
                  None \<Rightarrow> None
                | Some n \<Rightarrow> scanstring 1 (n # acc) cs))
      else if py_ord c \<le> 0x1F then None
      else scanstring 0 (py_ord c # acc) cs)"

text \<open>\<^verbatim>\<open>_match_number\<close>: \<^verbatim>\<open>-?(0|[1-9][0-9]*)(\.[0-9]+)?([eE][-+]?[0-9]+)?\<close>, an \<^verbatim>\<open>int\<close>
  without fraction and exponent, a \<^verbatim>\<open>float\<close> otherwise.\<close>

definition int_part :: "string \<Rightarrow> (string \<times> string) option" where
  "int_part s =
     (case s of
        [] \<Rightarrow> None
      | c # cs \<Rightarrow>
          if c = CHR ''0'' then Some ([c], cs)
          else if is_digit c then Some (c # takeWhile is_digit cs, dropWhile is_digit cs)
          else None)"

definition frac_part :: "string \<Rightarrow> string \<times> string" where
  "frac_part s =
     (case s of
        c # d # cs \<Rightarrow>
          if c = CHR ''.'' \<and> is_digit d
          then (c # d # takeWhile is_digit cs, dropWhile is_digit cs)
          else ([], s)
      | _ \<Rightarrow> ([], s))"

definition exp_part :: "string \<Rightarrow> string \<times> string" where
  "exp_part s =
     (case s of
        [] \<Rightarrow> ([], s)
      | e # cs \<Rightarrow>
          if e = CHR ''e'' \<or> e = CHR ''E'' then
            (let sign = (case cs of [] \<Rightarrow> [] | g # _ \<Rightarrow> if g = CHR ''-'' \<or> g = CHR ''+'' then [g] else []);
                 ds = drop (length sign) cs
             in if takeWhile is_digit ds = [] then ([], s)
                else (e # sign @ takeWhile is_digit ds, dropWhile is_digit ds))
          else ([], s))"

definition int_of_digits :: "string \<Rightarrow> int" where
  "int_of_digits ds = foldl (\<lambda>a d. 10 * a + digit_val d) 0 ds"

definition match_number :: "string \<Rightarrow> (json \<times> string) option" where
  "match_number s =
     (let neg = (s \<noteq> [] \<and> hd s = CHR ''-''); s1 = (if neg then tl s else s) in
      case int_part s1 of
        None \<Rightarrow> None
      | Some (ip, r1) \<Rightarrow>
          (case frac_part r1 of
             (fp, r2) \<Rightarrow>
               (case exp_part r2 of
                  (ep, r3) \<Rightarrow>
                    if fp = [] \<and> ep = []
                    then Some (JInt (if neg then - int_of_digits ip else int_of_digits ip), r3)
                    else Some (JFloat ((if neg then ''-'' else []) @ ip @ fp @ ep), r3))))"

text \<open>The named constants: \<^verbatim>\<open>null\<close>, \<^verbatim>\<open>true\<close>, \<^verbatim>\<open>false\<close> and the three that
  \<^verbatim>\<open>_parse_constant\<close> turns into floats.\<close>

definition scan_constant :: "string \<Rightarrow> (json \<times> string) option" where
  "scan_constant s =
     (if prefix ''null'' s then Some (JNull, drop 4 s)
      else if prefix ''true'' s then Some (JBool True, drop 4 s)
      else if prefix ''false'' s then Some (JBool False, drop 5 s)
      else if prefix ''NaN'' s then Some (JFloat ''NaN'', drop 3 s)
      else if prefix ''Infinity'' s then Some (JFloat ''Infinity'', drop 8 s)
      else if prefix ''-Infinity'' s then Some (JFloat ''-Infinity'', drop 9 s)
      else None)"

definition expect :: "char \<Rightarrow> string \<Rightarrow> string option" where
  "expect c s = (case s of [] \<Rightarrow> None | d # r \<Rightarrow> if d = c then Some r else None)"

text \<open>\<^verbatim>\<open>_scan_once\<close>, \<^verbatim>\<open>_parse_object\<close> (at the start of a key, with the pairs read so
  far) and \<^verbatim>\<open>_parse_array\<close> (at the start of an element, with the elements read so far,
  reversed).  Every call takes one unit of fuel.\<close>

fun scan_once :: "nat \<Rightarrow> string \<Rightarrow> (json \<times> string) res"
  and parse_object :: "nat \<Rightarrow> (ustring \<times> json) list \<Rightarrow> string \<Rightarrow> (json \<times> string) res"
  and parse_array :: "nat \<Rightarrow> json list \<Rightarrow> string \<Rightarrow> (json \<times> string) res" where
  "scan_once 0 s = OutOfFuel"
| "scan_once (Suc n) s =
     (case s of
        [] \<Rightarrow> DecodeError
      | c # cs \<Rightarrow>
          if c = CHR 0x22 then
            (case scanstring 0 [] cs of
               None \<Rightarrow> DecodeError
             | Some (str, r) \<Rightarrow> Ok (JStr str, r))
          else if c = CHR ''{'' then
            (case expect CHR ''}'' (skip_ws cs) of
               Some r \<Rightarrow> Ok (JDict [], r)
             | None \<Rightarrow> parse_object n [] (skip_ws cs))
          else if c = CHR ''['' then
            (case expect CHR '']'' (skip_ws cs) of
               Some r \<Rightarrow> Ok (JList [], r)
             | None \<Rightarrow> parse_array n [] (skip_ws cs))
          else
            (case scan_constant s of
               Some (v, r) \<Rightarrow> Ok (v, r)
             | None \<Rightarrow>
                 (case match_number s of
                    None \<Rightarrow> DecodeError
                  | Some (v, r) \<Rightarrow> Ok (v, r))))"
| "parse_object 0 acc s = OutOfFuel"
| "parse_object (Suc n) acc s =
     (case expect CHR 0x22 s of
        None \<Rightarrow> DecodeError
      | Some s1 \<Rightarrow>
          (case scanstring 0 [] s1 of
             None \<Rightarrow> DecodeError
           | Some (key, s2) \<Rightarrow>
               (case expect CHR '':'' (skip_ws s2) of
                  None \<Rightarrow> DecodeError
                | Some s3 \<Rightarrow>
                    (case scan_once n (skip_ws s3) of
                       DecodeError \<Rightarrow> DecodeError
                     | OutOfFuel \<Rightarrow> OutOfFuel
                     | Ok (val, s4) \<Rightarrow>
                         (case expect CHR ''}'' (skip_ws s4) of
                            Some r \<Rightarrow> Ok (JDict (dict_set key val acc), r)
                          | None \<Rightarrow>
                              (case expect CHR '','' (skip_ws s4) of
                                 None \<Rightarrow> DecodeError
                               | Some s5 \<Rightarrow>
                                   parse_object n (dict_set key val acc) (skip_ws s5)))))))"
| "parse_array 0 acc s = OutOfFuel"
| "parse_array (Suc n) acc s =
     (case scan_once n s of
        DecodeError \<Rightarrow> DecodeError
      | OutOfFuel \<Rightarrow> OutOfFuel
      | Ok (val, s1) \<Rightarrow>
          (case expect CHR '']'' (skip_ws s1) of
             Some r \<Rightarrow> Ok (JList (rev (val # acc)), r)
           | None \<Rightarrow>
               (case expect CHR '','' (skip_ws s1) of
                  None \<Rightarrow> DecodeError
                | Some s2 \<Rightarrow> parse_array n (val # acc) (skip_ws s2))))"

text \<open>\<^verbatim>\<open>JSONDecoder.decode\<close>: leading whitespace, one value, trailing whitespace, nothing
  else.  The recursion limit of the interpreter and its limit on the number of digits of
  an integer are not part of the model.\<close>

definition json_decode :: "string \<Rightarrow> json res" where
  "json_decode s =
     (case scan_once (2 * length s + 1) (skip_ws s) of
        Ok (v, r) \<Rightarrow> if skip_ws r = [] then Ok v else DecodeError
      | DecodeError \<Rightarrow> DecodeError
      | OutOfFuel \<Rightarrow> OutOfFuel)"

text \<open>\<^verbatim>\<open>json.loads(s)\<close> under \<^verbatim>\<open>except json.JSONDecodeError\<close>: \<open>None\<close> is the exception.\<close>

definition json_loads :: "string \<Rightarrow> json option" where
  "json_loads s = (case json_decode s of Ok v \<Rightarrow> Some v | _ \<Rightarrow> None)"

section \<open>Regular-expression substitution and search\<close>

text \<open>
  \<^verbatim>\<open>re.sub\<close> for a pattern that matches no empty string: the text is scanned from the
  left; where the pattern matches, the replacement is written and the scan goes on
  after the match; elsewhere the character is copied.  A pattern is a function that
  takes the character before the position (for \<^verbatim>\<open>\b\<close>) and the text from the position
  on, and returns the replacement and the number of characters matched.  \<open>skip\<close>
  counts the characters of a match still to be passed over.
\<close>

type_synonym pattern = "char option \<Rightarrow> string \<Rightarrow> (string \<times> nat) option"

fun re_sub :: "pattern \<Rightarrow> char option \<Rightarrow> nat \<Rightarrow> string \<Rightarrow> string" where
  "re_sub m prev skip [] = []"
| "re_sub m prev (Suc k) (c # cs) = re_sub m (Some c) k cs"
| "re_sub m prev 0 (c # cs) =
     (case m prev (c # cs) of
        Some (rep, n) \<Rightarrow> rep @ re_sub m (Some c) (n - 1) cs
      | None \<Rightarrow> c # re_sub m (Some c) 0 cs)"

text \<open>\<^verbatim>\<open>re.search\<close>: the match at the leftmost position that has one; a pattern gives the
  length of its match at the start of the text.\<close>

fun re_search :: "(string \<Rightarrow> nat option) \<Rightarrow> string \<Rightarrow> string option" where
  "re_search m [] = None"
| "re_search m (c # cs) =
     (case m (c # cs) of
        Some n \<Rightarrow> Some (take n (c # cs))
      | None \<Rightarrow> re_search m cs)"

text \<open>\<^verbatim>\<open>\s\<close> and \<^verbatim>\<open>\w\<close> of a text pattern.\<close>

definition re_space :: "char \<Rightarrow> bool" where
  "re_space c = py_isspace c"

definition re_word :: "char \<Rightarrow> bool" where
  "re_word c = (py_isalnum c \<or> c = CHR ''_'')"

text \<open>\<^verbatim>\<open>```json\s*\<close> with \<^verbatim>\<open>re.IGNORECASE\<close> and \<^verbatim>\<open>```\s*\<close>, both replaced by nothing: the
  literal \<open>lit\<close> (in lower case) followed by whitespace.\<close>

definition fence :: "bool \<Rightarrow> string \<Rightarrow> pattern" where
  "fence ignorecase lit prev s =
     (if prefix lit (if ignorecase then py_lower (take (length lit) s) else s)
      then Some ([], length lit + length (takeWhile re_space (drop (length lit) s)))
      else None)"

text \<open>\<^verbatim>\<open>\{.*\}\<close> with \<^verbatim>\<open>re.DOTALL\<close>: from a \<^verbatim>\<open>{\<close> to the last \<^verbatim>\<open>}\<close> of the text.\<close>

definition braces :: "string \<Rightarrow> nat option" where
  "braces s =
     (case s of
        [] \<Rightarrow> None
      | c # cs \<Rightarrow>
          if c = CHR ''{'' \<and> CHR ''}'' \<in> set cs
          then Some (length s - length (takeWhile (\<lambda>d. d \<noteq> CHR ''}'') (rev s)))
          else None)"

text \<open>\<^verbatim>\<open>'([^']*)':\<close> replaced by \<^verbatim>\<open>"\1":\<close>.\<close>

definition quoted_key :: pattern where
  "quoted_key prev s =
     (case s of
        [] \<Rightarrow> None
      | c # cs \<Rightarrow>
          if c = CHR 0x27 then
            (let g = takeWhile (\<lambda>d. d \<noteq> CHR 0x27) cs in
             if prefix [CHR 0x27, CHR '':''] (drop (length g) cs)
             then Some ([CHR 0x22] @ g @ [CHR 0x22, CHR '':''], length g + 3)
             else None)
          else None)"

text \<open>\<^verbatim>\<open>,(\s*[}\]])\<close> replaced by \<^verbatim>\<open>\1\<close>.\<close>

definition trailing_comma :: pattern where
  "trailing_comma prev s =
     (case s of
        [] \<Rightarrow> None
      | c # cs \<Rightarrow>
          if c = CHR '','' then
            (let ws = takeWhile re_space cs in
             case drop (length ws) cs of
               [] \<Rightarrow> None
             | b # _ \<Rightarrow>
                 if b = CHR ''}'' \<or> b = CHR '']'' then Some (ws @ [b], length ws + 2) else None)
          else None)"

text \<open>\<^verbatim>\<open>\bword\b\<close> replaced by \<open>rep\<close>, for a word of word characters.\<close>

definition whole_word :: "string \<Rightarrow> string \<Rightarrow> pattern" where
  "whole_word word rep prev s =
     (if (case prev of None \<Rightarrow> True | Some p \<Rightarrow> \<not> re_word p) \<and> prefix word s \<and>
         (case drop (length word) s of [] \<Rightarrow> True | d # _ \<Rightarrow> \<not> re_word d)
      then Some (rep, length word)
      else None)"

text \<open>\<^verbatim>\<open>:\s*"([^"]*\n[^"]*)"\<close> replaced by \<^verbatim>\<open>: "..."\<close> with every newline of the group
  turned into a space.\<close>

definition multiline_value :: pattern where
  "multiline_value prev s =
     (case s of
        [] \<Rightarrow> None
      | c # cs \<Rightarrow>
          if c = CHR '':'' then
            (let ws = takeWhile re_space cs in
             case drop (length ws) cs of
               [] \<Rightarrow> None
             | q # r \<Rightarrow>
                 if q = CHR 0x22 then
                   (let g = takeWhile (\<lambda>d. d \<noteq> CHR 0x22) r in
                    if prefix [CHR 0x22] (drop (length g) r) \<and> CHR 0x0A \<in> set g
                    then Some ('': '' @ [CHR 0x22] @ map (\<lambda>d. if d = CHR 0x0A then CHR '' '' else d) g
                                 @ [CHR 0x22], length ws + length g + 3)
                    else None)
                 else None)
          else None)"

text \<open>\<^verbatim>\<open>\{[^{}]*(?:\{[^{}]*\}[^{}]*)*\}\<close>: an object whose members hold objects without
  objects of their own.  \<open>object_end inner n s\<close> reads on after \<open>n\<close> matched characters,
  inside an inner object or not.\<close>

fun object_end :: "bool \<Rightarrow> nat \<Rightarrow> string \<Rightarrow> nat option" where
  "object_end inner n [] = None"
| "object_end inner n (c # cs) =
     (if c = CHR ''{'' then (if inner then None else object_end True (Suc n) cs)
      else if c = CHR ''}'' then (if inner then object_end False (Suc n) cs else Some (Suc n))
      else object_end inner (Suc n) cs)"

definition flat_object :: "string \<Rightarrow> nat option" where
  "flat_object s =
     (case s of
        [] \<Rightarrow> None
      | c # cs \<Rightarrow> if c = CHR ''{'' then object_end False 1 cs else None)"

section \<open>\<^verbatim>\<open>json_utils\<close>: recovery of the model's reply\<close>

definition sanitize_json_string :: "string \<Rightarrow> string" where
  "sanitize_json_string text0 =
     (let text1 = re_sub (fence True ''```json'') None 0 text0;
          text2 = re_sub (fence False ''```'') None 0 text1;
          text3 = (case re_search braces text2 of Some m \<Rightarrow> m | None \<Rightarrow> text2);
          text4 = re_sub quoted_key None 0 text3;
          text5 = re_sub trailing_comma None 0 text4;
          text6 = re_sub (whole_word ''None'' ''null'') None 0 text5;
          text7 = re_sub (whole_word ''True'' ''true'') None 0 text6;
          text8 = re_sub (whole_word ''False'' ''false'') None 0 text7;
          text9 = filter (\<lambda>c. py_ord c \<ge> 32 \<or> c = CHR 0x0A \<or> c = CHR 0x0D \<or> c = CHR 0x09) text8
      in py_strip text9)"

text \<open>The four strategies of \<^verbatim>\<open>extract_json_safely\<close>, each under its own
  \<^verbatim>\<open>try ... except json.JSONDecodeError: pass\<close>.\<close>

definition extract_json_safely :: "string \<Rightarrow> json option" where
  "extract_json_safely text =
     (if text = [] \<or> py_strip text = [] then None
      else
        case json_loads text of
          Some v \<Rightarrow> Some v
        | None \<Rightarrow>
            (case json_loads (sanitize_json_string text) of
               Some v \<Rightarrow> Some v
             | None \<Rightarrow>
                 (case (case re_search flat_object text of
                          Some m \<Rightarrow> json_loads m
                        | None \<Rightarrow> None) of
                    Some v \<Rightarrow> Some v
                  | None \<Rightarrow>
                      (case json_loads (re_sub multiline_value None 0 text) of
                         Some v \<Rightarrow> Some v
                       | None \<Rightarrow> None))))"

text \<open>The recovery as the specification words it: an ordered list of strategies, each a
  function from the text to a structure or nothing; the first that yields a structure
  wins.\<close>

definition strategies :: "(string \<Rightarrow> json option) list" where
  "strategies =
     [json_loads,
      \<lambda>text. json_loads (sanitize_json_string text),
      \<lambda>text. case re_search flat_object text of Some m \<Rightarrow> json_loads m | None \<Rightarrow> None,
      \<lambda>text. json_loads (re_sub multiline_value None 0 text)]"

fun first_success :: "(string \<Rightarrow> json option) list \<Rightarrow> string \<Rightarrow> json option" where
  "first_success [] text = None"
| "first_success (f # fs) text =
     (case f text of Some v \<Rightarrow> Some v | None \<Rightarrow> first_success fs text)"

definition recover_spec :: "string \<Rightarrow> json option" where
  "recover_spec text = first_success strategies text"

section \<open>\<^verbatim>\<open>validate_paper_data\<close>\<close>

text \<open>Truth value of a decoded value.  A float literal is false when it rounds to zero:
  its magnitude \<open>m * 10^e\<close> is at most \<open>2^-1075\<close>, half the least positive float.\<close>

definition float_is_zero :: "string \<Rightarrow> bool" where
  "float_is_zero lit =
     (let s = (if lit \<noteq> [] \<and> hd lit = CHR ''-'' then tl lit else lit) in
      case int_part s of
        None \<Rightarrow> False
      | Some (ip, r1) \<Rightarrow>
          (case frac_part r1 of
             (fp, r2) \<Rightarrow>
               (case exp_part r2 of
                  (ep, r3) \<Rightarrow>
                    (let m = int_of_digits (ip @ drop 1 fp);
                         ex = (case drop 1 ep of
                                 [] \<Rightarrow> 0
                               | g # ds \<Rightarrow>
                                   if g = CHR ''-'' then - int_of_digits ds
                                   else if g = CHR ''+'' then int_of_digits ds
                                   else int_of_digits (g # ds));
                         e = ex - int (length (drop 1 fp))
                     in m = 0 \<or> (e < 0 \<and> m * 2 ^ 1075 \<le> 10 ^ nat (- e))))))"

fun py_truthy :: "json \<Rightarrow> bool" where
  "py_truthy JNull = False"
| "py_truthy (JBool b) = b"
| "py_truthy (JInt n) = (n \<noteq> 0)"
| "py_truthy (JFloat lit) = (\<not> float_is_zero lit)"
| "py_truthy (JStr s) = (s \<noteq> [])"
| "py_truthy (JList xs) = (xs \<noteq> [])"
| "py_truthy (JDict d) = (d \<noteq> [])"

fun show_nat :: "nat \<Rightarrow> string" where
  "show_nat n =
     (if n < 10 then [char_of (48 + n)] else show_nat (n div 10) @ [char_of (48 + n mod 10)])"

definition show_int :: "int \<Rightarrow> string" where
  "show_int i = (if i < 0 then CHR ''-'' # show_nat (nat (- i)) else show_nat (nat i))"

text \<open>\<^verbatim>\<open>str(v)\<close>.  The text of a float, a list and a dict is Python's \<^verbatim>\<open>repr\<close>, the
  parameter \<open>repr\<close>.\<close>

definition py_str :: "(json \<Rightarrow> ustring) \<Rightarrow> json \<Rightarrow> ustring" where
  "py_str repr v =
     (case v of
        JNull \<Rightarrow> ustr ''None''
      | JBool b \<Rightarrow> (if b then ustr ''True'' else ustr ''False'')
      | JInt i \<Rightarrow> ustr (show_int i)
      | JStr s \<Rightarrow> s
      | _ \<Rightarrow> repr v)"

text \<open>\<^verbatim>\<open>data.get\<close> exists for a dict only; on any other value the call raises
  \<^verbatim>\<open>AttributeError\<close>.\<close>

definition validate_paper_data :: "(json \<Rightarrow> ustring) \<Rightarrow> json \<Rightarrow> exn + json" where
  "validate_paper_data repr data =
     (case data of
        JDict d \<Rightarrow>
          (let title_v = JStr (py_str repr (case dict_get d (ustr ''title'') of
                                              None \<Rightarrow> JStr (ustr ''Untitled'')
                                            | Some v \<Rightarrow> v));
               authors_v = (case dict_get d (ustr ''authors'') of
                              Some (JList xs) \<Rightarrow> xs
                            | _ \<Rightarrow> []);
               overview_v = (case dict_get d (ustr ''overview'') of
                               Some (JStr s) \<Rightarrow> JStr s
                             | _ \<Rightarrow> JNull);
               overview_v = (if overview_v = JStr [] then JNull else overview_v);
               authors_v = filter py_truthy authors_v
           in Inr (JDict [(ustr ''title'', title_v),
                          (ustr ''authors'', JList authors_v),
                          (ustr ''overview'', overview_v)]))
      | _ \<Rightarrow> Inl AttributeError)"

section \<open>Concrete inputs for the acquisition workflow\<close>

definition demo_join :: "path \<Rightarrow> string \<Rightarrow> path" where
  "demo_join a b = a @ ''/'' @ b"

definition demo_paper :: "char paper_metadata" where
  "demo_paper = \<lparr>paper_id = ''0123456789abcdef'', title = ''Vision Transformers for Segmentation'',
     authors = [], overview = None, conference_name = None, pdf_found = False, pdf_path = None,
     pdf_url = None, source_files = [], created_at = 0, updated_at = 0, version = 1\<rparr>"

definition unrelated_entry :: entry where
  "unrelated_entry = \<lparr>id_text = Some ''http://arxiv.org/abs/2101.00001v1'',
     title_text = Some ''Unrelated Survey on Databases'', author_names = [Some ''A. Author'']\<rparr>"

definition matching_entry :: entry where
  "matching_entry = \<lparr>id_text = Some ''http://arxiv.org/abs/2101.00001v1'',
     title_text = Some ''Vision Transformers for Segmentation'',
     author_names = [Some ''A. Author'', None]\<rparr>"

definition empty_world :: world where
  "empty_world = \<lparr>files = Map.empty, unstatable = (\<lambda>p. False), trace = []\<rparr>"

text \<open>The search finds the paper and the download is complete, but the PDF yields only
  40 characters of text.\<close>

definition summary_fails :: replies where
  "summary_fails = \<lparr>search_reply = SearchEntries [matching_entry], download_reply = Streamed 5000,
     pdf_text = ''forty characters of text, not any more..'', gen_reply = GenOK ''overview''\<rparr>"

text \<open>The search returns an unrelated paper; everything after it would succeed.\<close>

definition unrelated_hit :: replies where
  "unrelated_hit = \<lparr>search_reply = SearchEntries [unrelated_entry], download_reply = Streamed 5000,
     pdf_text = replicate 200 CHR ''x'', gen_reply = GenOK ''overview''\<rparr>"


text \<open>The body of the reply is 500 bytes long.\<close>

definition small_body :: replies where
  "small_body = \<lparr>search_reply = SearchEntries [matching_entry], download_reply = Streamed 500,
     pdf_text = [], gen_reply = GenError\<rparr>"

section \<open>Concrete model replies\<close>

text \<open>A reply with prose, a fenced block, single-quoted keys and values, and \<^verbatim>\<open>None\<close>.\<close>

definition scenario1 :: string where
  "scenario1 =
     ''Here'' @ [CHR 0x27] @ ''s the JSON:'' @ [CHR 0x0A] @ ''```json'' @ [CHR 0x0A] @ ''{'' @
     [CHR 0x27] @ ''title'' @ [CHR 0x27] @ '': '' @ [CHR 0x27] @ ''Foo'' @ [CHR 0x27] @
     '', '' @ [CHR 0x27] @ ''authors'' @ [CHR 0x27] @ '': ['' @ [CHR 0x27] @ ''A'' @
     [CHR 0x27] @ '','' @ [CHR 0x27] @ ''B'' @ [CHR 0x27] @ ''], '' @ [CHR 0x27] @
     ''overview'' @ [CHR 0x27] @ '': None}'' @ [CHR 0x0A] @ ''```''"

text \<open>What \<^verbatim>\<open>sanitize_json_string\<close> makes of it: the keys are in double quotes, the values
  still in single quotes.\<close>

definition scenario1_sanitized :: string where
  "scenario1_sanitized =
     ''{'' @ [CHR 0x22] @ ''title'' @ [CHR 0x22] @ '': '' @ [CHR 0x27] @ ''Foo'' @
     [CHR 0x27] @ '', '' @ [CHR 0x22] @ ''authors'' @ [CHR 0x22] @ '': ['' @ [CHR 0x27] @
     ''A'' @ [CHR 0x27] @ '','' @ [CHR 0x27] @ ''B'' @ [CHR 0x27] @ ''], '' @ [CHR 0x22] @
     ''overview'' @ [CHR 0x22] @ '': null}''"

section \<open>Properties of the acquisition workflow\<close>




lemma search_paper_effect:
  "search_paper reply t w = (r, w') \<Longrightarrow>
     files w' = files w \<and> unstatable w' = unstatable w \<and>
     trace w' = trace w @ [EvSearch (clean_title t)]"
  by (auto simp: search_paper_def emit_def Let_def
      split: search_reply.splits list.splits option.splits)







text \<open>
  \<^bold>\<open>Claim C3\<close> (remote similarity gate).  For every query title: when the search
  returns a hit whose similarity is below the minimum, \<^verbatim>\<open>search_and_download\<close> ends with
  the low-similarity rejection; that similarity is the token overlap of the query title
  and the hit's title; no file is created or changed, and the only effect performed is
  the search request itself (no pause, no download request).
\<close>

theorem similarity_gate:
  assumes "search_paper (search_reply orc) t w = (Some h, w1)"
      and "similarity h < min_similarity"
  shows "search_and_download orc t out min_similarity w
           = (Inr (False, LowSimilarity (similarity h) (hit_title h), None), w1)
       \<and> similarity h = calculate_similarity (py_lower t) (py_lower (hit_title h))
       \<and> files w1 = files w
       \<and> trace w1 = trace w @ [EvSearch (clean_title t)]"
  using assms search_paper_effect [OF assms(1)]
  by (auto simp: search_and_download_def search_paper_def Let_def
      split: search_reply.splits list.splits option.splits)

theorem similarity_gate_witness:
  "search_paper (search_reply unrelated_hit) ''Vision Transformers for Segmentation'' empty_world
     = (Some \<lparr>arxiv_id = ''2101.00001v1'', hit_title = ''Unrelated Survey on Databases'',
              hit_pdf_url = ''https://arxiv.org/pdf/2101.00001v1.pdf'',
              hit_authors = [''A. Author''], similarity = 0\<rparr>,
        \<lparr>files = Map.empty, unstatable = (\<lambda>p. False),
         trace = [EvSearch ''Vision Transformers for Segmentation'']\<rparr>)
   \<and> (0 :: rat) < 3 / 5
   \<and> search_and_download unrelated_hit ''Vision Transformers for Segmentation'' ''out.pdf'' (3 / 5)
        empty_world
     = (Inr (False, LowSimilarity 0 ''Unrelated Survey on Databases'', None),
        \<lparr>files = Map.empty, unstatable = (\<lambda>p. False),
         trace = [EvSearch ''Vision Transformers for Segmentation'']\<rparr>)"
proof -
  let ?h = "\<lparr>arxiv_id = ''2101.00001v1'', hit_title = ''Unrelated Survey on Databases'',
              hit_pdf_url = ''https://arxiv.org/pdf/2101.00001v1.pdf'',
              hit_authors = [''A. Author''], similarity = 0\<rparr>"
  let ?w1 = "\<lparr>files = Map.empty, unstatable = (\<lambda>p. False),
              trace = [EvSearch ''Vision Transformers for Segmentation'']\<rparr>"
  have st: "py_strip ''Unrelated Survey on Databases'' = ''Unrelated Survey on Databases''"
    by code_simp
  have sim: "calculate_similarity (py_lower ''Vision Transformers for Segmentation'')
               (py_lower ''Unrelated Survey on Databases'') = 0"
    by code_simp
  have ct: "clean_title ''Vision Transformers for Segmentation''
              = ''Vision Transformers for Segmentation''"
    by code_simp
  have sl: "py_split_last ''/abs/'' ''http://arxiv.org/abs/2101.00001v1'' = ''2101.00001v1''"
    by code_simp
  have sp: "search_paper (search_reply unrelated_hit) ''Vision Transformers for Segmentation''
              empty_world = (Some ?h, ?w1)"
    by (simp add: search_paper_def unrelated_hit_def unrelated_entry_def empty_world_def emit_def
        ct sl st sim List.map_filter_simps)
  have lt: "similarity ?h < 3 / 5" by simp
  show ?thesis
    using similarity_gate [OF sp lt, of "''out.pdf''"] sp by simp
qed

text \<open>
  \<^bold>\<open>Claim C10\<close> (existing-file guard).  When the destination path generated for a
  paper already exists, both \<^verbatim>\<open>download_paper\<close> and \<^verbatim>\<open>download_paper_from_url\<close> return
  the failure "PDF already exists locally" and leave the world as it was: no search, no
  download, no store update, and the same files with the same contents.
\<close>

theorem existing_file_guard:
  assumes "exists_file (output_path_of pjoin cr conf paper) w"
  shows "download_paper pjoin cr orc paper conf w = (Inr (False, AlreadyExists), w)
       \<and> download_paper_from_url pjoin cr orc paper conf url w = (Inr (False, AlreadyExists), w)"
  using assms by (simp add: download_paper_def download_paper_from_url_def exists_file_def)

theorem existing_file_guard_witness:
  "exists_file (output_path_of demo_join ''data/conferences'' ''conf'' demo_paper)
      \<lparr>files = [''data/conferences/conf/pdfs/Vision_Transformers_for_Segmentation_01234567.pdf''
                  \<mapsto> File 4096], unstatable = (\<lambda>p. False), trace = []\<rparr>
   \<and> download_paper demo_join ''data/conferences'' summary_fails demo_paper ''conf''
        \<lparr>files = [''data/conferences/conf/pdfs/Vision_Transformers_for_Segmentation_01234567.pdf''
                    \<mapsto> File 4096], unstatable = (\<lambda>p. False), trace = []\<rparr>
      = (Inr (False, AlreadyExists),
         \<lparr>files = [''data/conferences/conf/pdfs/Vision_Transformers_for_Segmentation_01234567.pdf''
                     \<mapsto> File 4096], unstatable = (\<lambda>p. False), trace = []\<rparr>)
   \<and> download_paper_from_url demo_join ''data/conferences'' summary_fails demo_paper ''conf''
        ''https://arxiv.org/abs/2101.00001v1''
        \<lparr>files = [''data/conferences/conf/pdfs/Vision_Transformers_for_Segmentation_01234567.pdf''
                    \<mapsto> File 4096], unstatable = (\<lambda>p. False), trace = []\<rparr>
      = (Inr (False, AlreadyExists),
         \<lparr>files = [''data/conferences/conf/pdfs/Vision_Transformers_for_Segmentation_01234567.pdf''
                     \<mapsto> File 4096], unstatable = (\<lambda>p. False), trace = []\<rparr>)"
proof -
  let ?p = "''data/conferences/conf/pdfs/Vision_Transformers_for_Segmentation_01234567.pdf''"
  let ?w = "\<lparr>files = [?p \<mapsto> File 4096], unstatable = (\<lambda>p. False), trace = []\<rparr>"
  have p: "output_path_of demo_join ''data/conferences'' ''conf'' demo_paper = ?p"
    by code_simp
  have ex: "exists_file (output_path_of demo_join ''data/conferences'' ''conf'' demo_paper) ?w"
    unfolding p by (simp add: exists_file_def py_exists_def)
  show ?thesis
    using existing_file_guard [OF ex, of summary_fails "''https://arxiv.org/abs/2101.00001v1''"] ex
    by simp
qed

section \<open>The decoder always returns\<close>

text \<open>Every successful scan consumes input, so the fuel given by \<open>json_decode\<close> is never
  used up: \<open>json_loads\<close> answers \<open>None\<close> only for a decoding error.\<close>

lemma skip_ws_length: "length (skip_ws s) \<le> length s"
  by (simp add: skip_ws_def length_dropWhile_le)

lemma expect_length: "expect c s = Some r \<Longrightarrow> length s = Suc (length r)"
  by (auto simp: expect_def split: list.splits if_splits)

lemma hex4_length: "hex4 s = Some (n, r) \<Longrightarrow> length s = length r + 4"
  by (auto simp: hex4_def split: list.splits option.splits)

lemma scanstring_shorter: "scanstring k acc s = Some (x, r) \<Longrightarrow> length r < length s"
proof (induction k acc s rule: scanstring.induct)
  case (1 skip acc)
  then show ?case by simp
next
  case (2 k acc c cs)
  then show ?case by fastforce
next
  case (3 acc c cs)
  note ih = "3.IH"
  note a = "3.prems"
  show ?case
  proof (cases "c = CHR 0x22")
    case True
    with a show ?thesis by simp
  next
    case nq: False
    show ?thesis
    proof (cases "c = CHR 0x5C")
      case False
      with nq a have c: "\<not> py_ord c \<le> 0x1F" and "scanstring 0 (py_ord c # acc) cs = Some (x, r)"
        by (auto split: if_splits)
      have rest: "scanstring 0 (py_ord c # acc) cs = Some (x, r)" by fact
      from ih(5) [OF nq False c rest] show ?thesis by simp
    next
      case bs: True
      from a nq bs obtain e r0 where cs: "cs = e # r0"
        by (cases cs) auto
      show ?thesis
      proof (cases "e = CHR ''u''")
        case False
        from a nq bs cs False obtain n where se: "simple_escape e = Some n"
          and rest: "scanstring 1 (n # acc) cs = Some (x, r)"
          by (auto split: option.splits)
        from ih(4) [OF nq bs cs False se rest] show ?thesis by simp
      next
        case u: True
        from a nq bs cs u obtain n r1 where h: "hex4 r0 = Some (n, r1)"
          by (auto split: option.splits)
        show ?thesis
        proof (cases "0xD800 \<le> n \<and> n \<le> 0xDBFF \<and> prefix [CHR 0x5C, CHR ''u''] r1")
          case False
          with a nq bs cs u h have rest: "scanstring 5 (n # acc) cs = Some (x, r)"
            by (auto split: if_splits)
          from ih(3) [OF nq bs cs u h refl False rest] show ?thesis by simp
        next
          case sur: True
          from a nq bs cs u h sur obtain n2 r2 where h2: "hex4 (drop 2 r1) = Some (n2, r2)"
            by (auto split: option.splits)
          show ?thesis
          proof (cases "0xDC00 \<le> n2 \<and> n2 \<le> 0xDFFF")
            case True
            with a nq bs cs u h sur h2
            have rest: "scanstring 11 ((0x10000 + (n - 0xD800) * 0x400 + (n2 - 0xDC00)) # acc) cs = Some (x, r)"
              by simp
            from ih(1) [OF nq bs cs u h refl sur h2 refl True rest]
            show ?thesis by simp
          next
            case False
            with a nq bs cs u h sur h2
            have rest: "scanstring 5 (n # acc) cs = Some (x, r)"
              by simp
            from ih(2) [OF nq bs cs u h refl sur h2 refl False rest]
            show ?thesis by simp
          qed
        qed
      qed
    qed
  qed
qed

lemma int_part_shorter: "int_part s = Some (ip, r) \<Longrightarrow> length r < length s"
  by (auto simp: int_part_def split: list.splits if_splits
      intro: le_imp_less_Suc length_dropWhile_le)

lemma frac_part_le: "frac_part s = (fp, r) \<Longrightarrow> length r \<le> length s"
  by (auto simp: frac_part_def split: list.splits if_splits
      intro: le_SucI length_dropWhile_le)

lemma exp_part_le: "exp_part s = (ep, r) \<Longrightarrow> length r \<le> length s"
proof (cases s)
  case Nil
  then show "exp_part s = (ep, r) \<Longrightarrow> length r \<le> length s" by (simp add: exp_part_def)
next
  case (Cons e cs)
  assume a: "exp_part s = (ep, r)"
  define sign where "sign = (case cs of [] \<Rightarrow> [] | g # _ \<Rightarrow> if g = CHR ''-'' \<or> g = CHR ''+'' then [g] else [])"
  define ds where "ds = drop (length sign) cs"
  from a have "r = s \<or> r = dropWhile is_digit ds"
    by (simp add: exp_part_def Cons Let_def sign_def [symmetric] ds_def [symmetric] split: if_splits)
  moreover have "length (dropWhile is_digit ds) \<le> length ds" by (rule length_dropWhile_le)
  moreover have "length ds \<le> length cs" by (simp add: ds_def)
  ultimately show "length r \<le> length s" using Cons by auto
qed

lemma match_number_shorter: "match_number s = Some (v, r) \<Longrightarrow> length r < length s"
proof -
  assume a: "match_number s = Some (v, r)"
  define s1 where "s1 = (if s \<noteq> [] \<and> hd s = CHR ''-'' then tl s else s)"
  have l1: "length s1 \<le> length s" by (simp add: s1_def)
  from a obtain ip r1 where ip: "int_part s1 = Some (ip, r1)"
    by (auto simp: match_number_def Let_def s1_def split: option.splits)
  obtain fp r2 where fp: "frac_part r1 = (fp, r2)" by (cases "frac_part r1")
  obtain ep r3 where ep: "exp_part r2 = (ep, r3)" by (cases "exp_part r2")
  from a ip fp ep have "r = r3"
    by (auto simp: match_number_def Let_def s1_def split: if_splits)
  with int_part_shorter [OF ip] frac_part_le [OF fp] exp_part_le [OF ep] l1
  show ?thesis by simp
qed

lemma scan_constant_shorter: "scan_constant s = Some (v, r) \<Longrightarrow> length r < length s"
  by (auto simp: scan_constant_def prefix_def split: if_splits)

lemma scan_once_step:
  assumes po: "\<And>d' s' v' r'. parse_object n d' s' = Ok (v', r') \<Longrightarrow> length r' < length s'"
      and pa: "\<And>xs' s' v' r'. parse_array n xs' s' = Ok (v', r') \<Longrightarrow> length r' < length s'"
      and a: "scan_once (Suc n) s = Ok (v, r)"
  shows "length r < length s"
proof -
  from a obtain c cs where s: "s = c # cs" by (cases s) simp_all
  show "length r < length s"
  proof (cases "c = CHR 0x22")
    case True
    with a s obtain str where "scanstring 0 [] cs = Some (str, r)"
      by (auto split: option.splits)
    from scanstring_shorter [OF this] s show ?thesis by simp
  next
    case nq: False
    show ?thesis
    proof (cases "c = CHR ''{''")
      case True
      show ?thesis
      proof (cases "expect CHR ''}'' (skip_ws cs)")
        case (Some r')
        with a s True have "r = r'" by simp
        with expect_length [OF Some] skip_ws_length [of cs] s show ?thesis by simp
      next
        case None
        with a s True have "parse_object n [] (skip_ws cs) = Ok (v, r)" by simp
        from po [OF this] skip_ws_length [of cs] s show ?thesis by simp
      qed
    next
      case no: False
      show ?thesis
      proof (cases "c = CHR ''[''")
        case True
        show ?thesis
        proof (cases "expect CHR '']'' (skip_ws cs)")
          case (Some r')
          with a s True have "r = r'" by simp
          with expect_length [OF Some] skip_ws_length [of cs] s show ?thesis by simp
        next
          case None
          with a s True have "parse_array n [] (skip_ws cs) = Ok (v, r)" by simp
          from pa [OF this] skip_ws_length [of cs] s show ?thesis by simp
        qed
      next
        case na: False
        from a nq no na
        have "scan_constant s = Some (v, r) \<or> match_number s = Some (v, r)"
          unfolding s by (simp split: option.splits prod.splits)
        then show ?thesis
          using scan_constant_shorter match_number_shorter by blast
      qed
    qed
  qed
qed

lemma parse_object_step:
  assumes so: "\<And>s' v' r'. scan_once n s' = Ok (v', r') \<Longrightarrow> length r' < length s'"
      and po: "\<And>d' s' v' r'. parse_object n d' s' = Ok (v', r') \<Longrightarrow> length r' < length s'"
      and a: "parse_object (Suc n) d s = Ok (v, r)"
  shows "length r < length s"
proof -
  from a obtain s1 where e1: "expect CHR 0x22 s = Some s1"
    by (simp split: option.splits)
  from a e1 obtain key s2 where k: "scanstring 0 [] s1 = Some (key, s2)"
    by (simp split: option.splits prod.splits)
  from a e1 k obtain s3 where e3: "expect CHR '':'' (skip_ws s2) = Some s3"
    by (simp split: option.splits)
  from a e1 k e3 obtain val s4 where sv: "scan_once n (skip_ws s3) = Ok (val, s4)"
    by (simp split: res.splits prod.splits)
  have l4: "length s4 < length s"
    using expect_length [OF e1] scanstring_shorter [OF k] expect_length [OF e3] so [OF sv]
      skip_ws_length [of s2] skip_ws_length [of s3] by linarith
  show "length r < length s"
  proof (cases "expect CHR ''}'' (skip_ws s4)")
    case (Some r')
    with a e1 k e3 sv have "r = r'" by simp
    with expect_length [OF Some] skip_ws_length [of s4] l4 show ?thesis by auto
  next
    case None
    with a e1 k e3 sv obtain s5 where e5: "expect CHR '','' (skip_ws s4) = Some s5"
      and rest: "parse_object n (dict_set key val d) (skip_ws s5) = Ok (v, r)"
      by (simp split: option.splits)
    from po [OF rest] expect_length [OF e5] skip_ws_length [of s4] skip_ws_length [of s5] l4
    show ?thesis by linarith
  qed
qed

lemma parse_array_step:
  assumes so: "\<And>s' v' r'. scan_once n s' = Ok (v', r') \<Longrightarrow> length r' < length s'"
      and pa: "\<And>xs' s' v' r'. parse_array n xs' s' = Ok (v', r') \<Longrightarrow> length r' < length s'"
      and a: "parse_array (Suc n) xs s = Ok (v, r)"
  shows "length r < length s"
proof -
  from a obtain val s1 where sv: "scan_once n s = Ok (val, s1)"
    by (simp split: res.splits prod.splits)
  note l1 = so [OF sv]
  show "length r < length s"
  proof (cases "expect CHR '']'' (skip_ws s1)")
    case (Some r')
    with a sv have "r = r'" by simp
    with expect_length [OF Some] skip_ws_length [of s1] l1 show ?thesis by auto
  next
    case None
    with a sv obtain s2 where e2: "expect CHR '','' (skip_ws s1) = Some s2"
      and rest: "parse_array n (val # xs) (skip_ws s2) = Ok (v, r)"
      by (simp split: option.splits)
    from pa [OF rest] expect_length [OF e2] skip_ws_length [of s1] skip_ws_length [of s2] l1
    show ?thesis by linarith
  qed
qed

lemma consumes:
  "(scan_once n s = Ok (v, r) \<longrightarrow> length r < length s) \<and>
   (parse_object n d s = Ok (v, r) \<longrightarrow> length r < length s) \<and>
   (parse_array n xs s = Ok (v, r) \<longrightarrow> length r < length s)"
proof (induction n arbitrary: s v r d xs)
  case 0
  show ?case by simp
next
  case (Suc n)
  have so: "length r' < length s'" if "scan_once n s' = Ok (v', r')" for s' v' r'
    using Suc [of s' v' r'] that by simp
  have po: "length r' < length s'" if "parse_object n d' s' = Ok (v', r')" for s' v' r' d'
    using Suc [of s' v' r' d'] that by simp
  have pa: "length r' < length s'" if "parse_array n xs' s' = Ok (v', r')" for s' v' r' xs'
    using Suc [of s' v' r' _ xs'] that by simp
  have 1: "scan_once (Suc n) s = Ok (v, r) \<longrightarrow> length r < length s"
    using scan_once_step [of n s v r] po pa by blast
  have 2: "parse_object (Suc n) d s = Ok (v, r) \<longrightarrow> length r < length s"
    using parse_object_step [of n d s v r] so po by blast
  have 3: "parse_array (Suc n) xs s = Ok (v, r) \<longrightarrow> length r < length s"
    using parse_array_step [of n xs s v r] so pa by blast
  from 1 2 3 show ?case by blast
qed

lemma scan_once_shorter: "scan_once n s = Ok (v, r) \<Longrightarrow> length r < length s"
  using consumes [of n s v r] by simp

lemma scan_once_fuel_step:
  assumes po: "\<And>d' s'. 2 * length s' + 1 < n \<Longrightarrow> parse_object n d' s' \<noteq> OutOfFuel"
      and pa: "\<And>xs' s'. 2 * length s' + 1 < n \<Longrightarrow> parse_array n xs' s' \<noteq> OutOfFuel"
      and f: "2 * length s < Suc n"
  shows "scan_once (Suc n) s \<noteq> OutOfFuel"
proof (cases s)
  case Nil
  then show ?thesis by simp
next
  case (Cons c cs)
  have l: "2 * length (skip_ws cs) + 1 < n"
    using f skip_ws_length [of cs] Cons by simp
  show ?thesis
  proof (cases "c = CHR 0x22")
    case True
    then show ?thesis unfolding Cons by (simp split: option.splits prod.splits)
  next
    case nq: False
    show ?thesis
    proof (cases "c = CHR ''{''")
      case True
      then show ?thesis unfolding Cons using po [OF l] by (simp split: option.splits)
    next
      case no: False
      show ?thesis
      proof (cases "c = CHR ''[''")
        case True
        then show ?thesis unfolding Cons using pa [OF l] by (simp split: option.splits)
      next
        case False
        with nq no show ?thesis unfolding Cons by (simp split: option.splits prod.splits)
      qed
    qed
  qed
qed

lemma parse_object_fuel_step:
  assumes so: "\<And>s'. 2 * length s' < n \<Longrightarrow> scan_once n s' \<noteq> OutOfFuel"
      and po: "\<And>d' s'. 2 * length s' + 1 < n \<Longrightarrow> parse_object n d' s' \<noteq> OutOfFuel"
      and f: "2 * length s + 1 < Suc n"
  shows "parse_object (Suc n) d s \<noteq> OutOfFuel"
proof (cases "expect CHR 0x22 s")
  case None
  then show ?thesis by simp
next
  case e1: (Some s1)
  show ?thesis
  proof (cases "scanstring 0 [] s1")
    case None
    with e1 show ?thesis by simp
  next
    case (Some ks)
    then obtain key s2 where k: "scanstring 0 [] s1 = Some (key, s2)" by (cases ks) auto
    show ?thesis
    proof (cases "expect CHR '':'' (skip_ws s2)")
      case None
      with e1 k show ?thesis by simp
    next
      case e3: (Some s3)
      have l3: "length (skip_ws s3) + 3 \<le> length s"
        using expect_length [OF e1] scanstring_shorter [OF k] expect_length [OF e3]
          skip_ws_length [of s2] skip_ws_length [of s3] by linarith
      then have f3: "2 * length (skip_ws s3) < n" using f by simp
      show ?thesis
      proof (cases "scan_once n (skip_ws s3)")
        case OutOfFuel
        with so [OF f3] show ?thesis by simp
      next
        case DecodeError
        with e1 k e3 show ?thesis by simp
      next
        case (Ok vr)
        then obtain val s4 where sv: "scan_once n (skip_ws s3) = Ok (val, s4)" by (cases vr) auto
        have l4: "length s4 < length (skip_ws s3)" by (rule scan_once_shorter [OF sv])
        show ?thesis
        proof (cases "expect CHR ''}'' (skip_ws s4)")
          case (Some r')
          with e1 k e3 sv show ?thesis by simp
        next
          case nb: None
          show ?thesis
          proof (cases "expect CHR '','' (skip_ws s4)")
            case None
            with e1 k e3 sv nb show ?thesis by simp
          next
            case e5: (Some s5)
            have "length (skip_ws s5) < length s4"
              using expect_length [OF e5] skip_ws_length [of s4] skip_ws_length [of s5] by linarith
            with l4 l3 f have "2 * length (skip_ws s5) + 1 < n" by simp
            from po [OF this] e1 k e3 sv nb e5 show ?thesis by simp
          qed
        qed
      qed
    qed
  qed
qed

lemma parse_array_fuel_step:
  assumes so: "\<And>s'. 2 * length s' < n \<Longrightarrow> scan_once n s' \<noteq> OutOfFuel"
      and pa: "\<And>xs' s'. 2 * length s' + 1 < n \<Longrightarrow> parse_array n xs' s' \<noteq> OutOfFuel"
      and f: "2 * length s + 1 < Suc n"
  shows "parse_array (Suc n) xs s \<noteq> OutOfFuel"
proof (cases "scan_once n s")
  case OutOfFuel
  from f have "2 * length s < n" by simp
  with so OutOfFuel show ?thesis by simp
next
  case DecodeError
  then show ?thesis by simp
next
  case (Ok vr)
  then obtain val s1 where sv: "scan_once n s = Ok (val, s1)" by (cases vr) auto
  have l1: "length s1 < length s" by (rule scan_once_shorter [OF sv])
  show ?thesis
  proof (cases "expect CHR '']'' (skip_ws s1)")
    case (Some r')
    with sv show ?thesis by simp
  next
    case nb: None
    show ?thesis
    proof (cases "expect CHR '','' (skip_ws s1)")
      case None
      with sv nb show ?thesis by simp
    next
      case e2: (Some s2)
      have "length (skip_ws s2) < length s1"
        using expect_length [OF e2] skip_ws_length [of s1] skip_ws_length [of s2] by linarith
      with l1 f have "2 * length (skip_ws s2) + 1 < n" by simp
      from pa [OF this] sv nb e2 show ?thesis by simp
    qed
  qed
qed

lemma enough_fuel:
  "(2 * length s < n \<longrightarrow> scan_once n s \<noteq> OutOfFuel) \<and>
   (2 * length s + 1 < n \<longrightarrow> parse_object n d s \<noteq> OutOfFuel) \<and>
   (2 * length s + 1 < n \<longrightarrow> parse_array n xs s \<noteq> OutOfFuel)"
proof (induction n arbitrary: s d xs)
  case 0
  show ?case by simp
next
  case (Suc n)
  have so: "scan_once n s' \<noteq> OutOfFuel" if "2 * length s' < n" for s'
    using Suc [of s'] that by simp
  have po: "parse_object n d' s' \<noteq> OutOfFuel" if "2 * length s' + 1 < n" for s' d'
    using Suc [of s' d'] that by simp
  have pa: "parse_array n xs' s' \<noteq> OutOfFuel" if "2 * length s' + 1 < n" for s' xs'
    using Suc [of s' _ xs'] that by simp
  have 1: "2 * length s < Suc n \<longrightarrow> scan_once (Suc n) s \<noteq> OutOfFuel"
    using scan_once_fuel_step [of n s] po pa by blast
  have 2: "2 * length s + 1 < Suc n \<longrightarrow> parse_object (Suc n) d s \<noteq> OutOfFuel"
    using parse_object_fuel_step [of n s d] so po by blast
  have 3: "2 * length s + 1 < Suc n \<longrightarrow> parse_array (Suc n) xs s \<noteq> OutOfFuel"
    using parse_array_fuel_step [of n s xs] so pa by blast
  from 1 2 3 show ?case by blast
qed

lemma json_decode_fuel: "json_decode s \<noteq> OutOfFuel"
proof -
  have "2 * length (skip_ws s) < 2 * length s + 1"
    using skip_ws_length [of s] by simp
  with enough_fuel [of "skip_ws s" "2 * length s + 1"]
  have "scan_once (2 * length s + 1) (skip_ws s) \<noteq> OutOfFuel" by simp
  then show ?thesis
    by (simp add: json_decode_def split: res.splits prod.splits)
qed

lemma json_loads_None: "json_loads s = None \<longleftrightarrow> json_decode s = DecodeError"
  using json_decode_fuel [of s] by (simp add: json_loads_def split: res.splits)

section \<open>Recovery of the model's reply\<close>

text \<open>
  \<^bold>\<open>Claim C2\<close> (end-to-end scenario 1).  The claim expects the structure with title
  \<^verbatim>\<open>Foo\<close>, authors \<^verbatim>\<open>A\<close> and \<^verbatim>\<open>B\<close> and no overview.  The code returns nothing for this
  reply: the sanitizer rewrites only the single-quoted keys (the comment above the
  substitution promises keys and values), the values stay in single quotes, and the
  sanitized text is no JSON; the direct parse, the brace extraction and the newline
  repair fail as well.
\<close>

theorem scenario1_not_recovered:
  "sanitize_json_string scenario1 = scenario1_sanitized
   \<and> json_loads scenario1_sanitized = None
   \<and> extract_json_safely scenario1 = None"
  by code_simp

end
